theory Spec2Isabelle
  imports Main "HOL-Library.AList" "HOL-Library.Char_ord" "HOL-Library.List_Lexorder"
begin

section \<open>The symbol table of src/symtab.c\<close>

text \<open>
  The development embeds the symbol table manager (symtab.c): the symbol and semantic
  type stores, the declaration mutators, the packing and token translation passes, the
  colouring of precedence graph links and the matrix routines of the transitive reduction.

  A pointer to a symbol (or to a semantic type) is modelled by the interned tag of the
  record: the hash tables are keyed by tag and hold one record per tag, so tags and record
  addresses correspond one to one. A C \<^verbatim>\<open>int\<close> is modelled by \<^typ>\<open>int\<close>: no counter of
  the file is near the limits of its type in the properties below. Memory exhaustion
  (\<^verbatim>\<open>xalloc_die\<close>) is not modelled.
\<close>

subsection \<open>Data\<close>

type_synonym uniqstr = string

text \<open>
  Modelled from the spec: \<^verbatim>\<open>location\<close> is declared in location.h, which is not part of
  the sources at hand; locations are opaque and totally ordered by \<^verbatim>\<open>location_cmp\<close>.
\<close>

type_synonym location = int

definition location_cmp :: "location \<Rightarrow> location \<Rightarrow> int" where
  "location_cmp a b = a - b"

definition empty_location :: location where
  "empty_location = 0"

datatype symbol_class = unknown_sym | token_sym | nterm_sym

datatype status = undeclared | needed | declared

datatype assoc = undef_assoc | right_assoc | left_assoc | non_assoc | precedence_assoc

datatype code_props_type = destructor | printer

text \<open>
  Modelled from the spec: \<^verbatim>\<open>code_props\<close> is declared in scan-code.h, which is not part
  of the sources at hand; a value holds the code, its location, whether it is used, and a
  kind among none, keep and user.
\<close>

datatype code_props_kind = CODE_PROPS_NONE | CODE_PROPS_KEEP | CODE_PROPS_USER

record code_props =
  cp_kind :: code_props_kind
  cp_code :: "string option"
  cp_location :: location
  cp_is_used :: bool

definition code_props_none_init :: code_props where
  "code_props_none_init =
     \<lparr>cp_kind = CODE_PROPS_NONE, cp_code = None, cp_location = empty_location,
      cp_is_used = False\<rparr>"

text \<open>
  Modelled from the spec: the sentinel integers are declared in symtab.h and gram.h, which
  are not part of the sources at hand. The spec lists them as sentinels that differ from
  every symbol number and from every user token number; they are taken negative, and the
  limit on the number of symbols is the largest C \<^verbatim>\<open>int\<close>.
\<close>

definition NUMBER_UNDEFINED :: int where
  "NUMBER_UNDEFINED = - 1"

definition USER_NUMBER_UNDEFINED :: int where
  "USER_NUMBER_UNDEFINED = - 1"

definition USER_NUMBER_HAS_STRING_ALIAS :: int where
  "USER_NUMBER_HAS_STRING_ALIAS = - 9991"

definition SYMBOL_NUMBER_MAXIMUM :: int where
  "SYMBOL_NUMBER_MAXIMUM = 2147483647"

definition SUB_INDENT :: nat where
  "SUB_INDENT = 4"

record symbol =
  tag :: uniqstr
  location :: location
  type_name :: "uniqstr option"
  type_location :: location
  props :: "code_props_type \<Rightarrow> code_props"
  number :: int
  prec_location :: location
  prec :: int
  assoc :: assoc
  user_token_number :: int
  sym_alias :: "uniqstr option"
  sym_class :: symbol_class
  status :: status

record semantic_type =
  st_tag :: uniqstr
  st_location :: location
  st_status :: status
  st_props :: "code_props_type \<Rightarrow> code_props"

subsection \<open>The diagnostic sink\<close>

datatype severity = fatal | complaint | Wyacc | Wprecedence | Wother

datatype fmt_arg = Str string | Num int

record diagnostic =
  d_location :: "location option"
  d_severity :: severity
  d_indent :: nat
  d_format :: string
  d_args :: "fmt_arg list"

text \<open>
  What stops the program: a fatal complaint (the process exits), a failed \<^verbatim>\<open>aver\<close> or
  \<^verbatim>\<open>assert\<close>, the use of a null or dangling pointer, and an array access out of range.
\<close>

datatype error =
    Fatal_exit diagnostic
  | Aver_failed
  | Bad_pointer
  | Out_of_bounds

subsection \<open>The global state\<close>

record state =
  symbol_table :: "(uniqstr \<times> symbol) list"
  semantic_type_table :: "(uniqstr \<times> semantic_type) list"
  symbols_sorted :: "uniqstr list option"
  semantic_types_sorted :: "uniqstr list option"
  nsyms :: int
  ntokens :: int
  nvars :: int
  symbols :: "uniqstr option list"
  token_translations :: "int list"
  max_user_token_number :: int
  errtoken :: "uniqstr option"
  undeftoken :: "uniqstr option"
  endtoken :: "uniqstr option"
  accept :: "uniqstr option"
  startsymbol :: "uniqstr option"
  startsymbol_location :: location
  code_props_none :: code_props
  diagnostics :: "diagnostic list"

definition ebind :: "error + 'a \<Rightarrow> ('a \<Rightarrow> error + 'b) \<Rightarrow> error + 'b" where
  "ebind m f = (case m of Inl e \<Rightarrow> Inl e | Inr x \<Rightarrow> f x)"

primrec for_each :: "('i \<Rightarrow> 'a \<Rightarrow> error + 'a) \<Rightarrow> 'i list \<Rightarrow> 'a \<Rightarrow> error + 'a" where
  "for_each body [] a = Inr a"
| "for_each body (x # xs) a = ebind (body x a) (for_each body xs)"

definition sym_at :: "state \<Rightarrow> uniqstr \<Rightarrow> symbol option" where
  "sym_at s p = map_of (symbol_table s) p"

definition sym_upd :: "uniqstr \<Rightarrow> (symbol \<Rightarrow> symbol) \<Rightarrow> state \<Rightarrow> state" where
  "sym_upd p f s = s\<lparr>symbol_table := AList.map_entry p f (symbol_table s)\<rparr>"

definition type_at :: "state \<Rightarrow> uniqstr \<Rightarrow> semantic_type option" where
  "type_at s p = map_of (semantic_type_table s) p"

definition type_upd :: "uniqstr \<Rightarrow> (semantic_type \<Rightarrow> semantic_type) \<Rightarrow> state \<Rightarrow> state" where
  "type_upd p f s = s\<lparr>semantic_type_table := AList.map_entry p f (semantic_type_table s)\<rparr>"

definition make_diag ::
  "location option \<Rightarrow> severity \<Rightarrow> nat \<Rightarrow> string \<Rightarrow> fmt_arg list \<Rightarrow> diagnostic" where
  "make_diag loc sev ind fmt args =
     \<lparr>d_location = loc, d_severity = sev, d_indent = ind, d_format = fmt, d_args = args\<rparr>"

definition complain_indent ::
  "location \<Rightarrow> severity \<Rightarrow> nat \<Rightarrow> string \<Rightarrow> fmt_arg list \<Rightarrow> state \<Rightarrow> state" where
  "complain_indent loc sev ind fmt args s =
     s\<lparr>diagnostics := diagnostics s @ [make_diag (Some loc) sev ind fmt args]\<rparr>"

definition complain ::
  "location option \<Rightarrow> severity \<Rightarrow> string \<Rightarrow> fmt_arg list \<Rightarrow> state \<Rightarrow> error + state" where
  "complain loc sev fmt args s =
     (if sev = fatal then Inl (Fatal_exit (make_diag loc sev 0 fmt args))
      else Inr (s\<lparr>diagnostics := diagnostics s @ [make_diag loc sev 0 fmt args]\<rparr>))"

subsection \<open>Creating records\<close>

definition symbol_new :: "uniqstr \<Rightarrow> location \<Rightarrow> state \<Rightarrow> error + (symbol \<times> state)" where
  "symbol_new tg loc s =
     ebind
       (if (case tg of [] \<Rightarrow> True | c # _ \<Rightarrow> c \<noteq> CHR 0x22 \<and> c \<noteq> CHR 0x27)
           \<and> CHR ''-'' \<in> set tg
        then complain (Some loc) Wyacc ''POSIX Yacc forbids dashes in symbol names: %s''
               [Str tg] s
        else Inr s)
       (\<lambda>s1.
          let res = \<lparr>tag = tg, location = loc, type_name = None,
                     type_location = empty_location,
                     props = (\<lambda>_. code_props_none_init),
                     number = NUMBER_UNDEFINED, prec_location = empty_location, prec = 0,
                     assoc = undef_assoc, user_token_number = USER_NUMBER_UNDEFINED,
                     sym_alias = None, sym_class = unknown_sym, status = undeclared\<rparr>
          in ebind
               (if nsyms s1 = SYMBOL_NUMBER_MAXIMUM
                then complain None fatal
                       ''too many symbols in input grammar (limit is %d)''
                       [Num SYMBOL_NUMBER_MAXIMUM] s1
                else Inr s1)
               (\<lambda>s2. Inr (res, s2\<lparr>nsyms := nsyms s2 + 1\<rparr>)))"

definition code_props_type_string :: "code_props_type \<Rightarrow> string" where
  "code_props_type_string kind =
     (case kind of destructor \<Rightarrow> ''%destructor'' | printer \<Rightarrow> ''%printer'')"

definition semantic_type_new :: "uniqstr \<Rightarrow> location option \<Rightarrow> semantic_type" where
  "semantic_type_new tg loc =
     \<lparr>st_tag = tg,
      st_location = (case loc of Some l \<Rightarrow> l | None \<Rightarrow> empty_location),
      st_status = undeclared,
      st_props = (\<lambda>_. code_props_none_init)\<rparr>"

subsection \<open>Redeclarations\<close>

definition symbol_redeclaration ::
  "symbol \<Rightarrow> string \<Rightarrow> location \<Rightarrow> location \<Rightarrow> state \<Rightarrow> state" where
  "symbol_redeclaration r what first second s =
     (let i = 0;
          s1 = complain_indent second complaint i ''%s redeclaration for %s''
                 [Str what, Str (tag r)] s;
          i = i + SUB_INDENT
      in complain_indent first complaint i ''previous declaration'' [] s1)"

definition semantic_type_redeclaration ::
  "semantic_type \<Rightarrow> string \<Rightarrow> location \<Rightarrow> location \<Rightarrow> state \<Rightarrow> state" where
  "semantic_type_redeclaration r what first second s =
     (let i = 0;
          s1 = complain_indent second complaint i ''%s redeclaration for <%s>''
                 [Str what, Str (st_tag r)] s;
          i = i + SUB_INDENT
      in complain_indent first complaint i ''previous declaration'' [] s1)"

subsection \<open>The mutators\<close>

definition symbol_type_set ::
  "uniqstr \<Rightarrow> uniqstr option \<Rightarrow> location \<Rightarrow> state \<Rightarrow> error + state" where
  "symbol_type_set sy tn loc s =
     (case tn of
        None \<Rightarrow> Inr s
      | Some t \<Rightarrow>
          (case sym_at s sy of
             None \<Rightarrow> Inl Bad_pointer
           | Some r \<Rightarrow>
               let s1 = (if type_name r \<noteq> None
                         then symbol_redeclaration r ''%type'' (type_location r) loc s
                         else s)
               in Inr (sym_upd sy (\<lambda>r. r\<lparr>type_name := Some t, type_location := loc\<rparr>) s1)))"


definition semantic_type_code_props_set ::
  "uniqstr \<Rightarrow> code_props_type \<Rightarrow> code_props \<Rightarrow> state \<Rightarrow> error + state" where
  "semantic_type_code_props_set ty kind code s =
     (case type_at s ty of
        None \<Rightarrow> Inl Bad_pointer
      | Some r \<Rightarrow>
          let s1 = (if cp_code (st_props r kind) \<noteq> None
                    then semantic_type_redeclaration r (code_props_type_string kind)
                           (cp_location (st_props r kind)) (cp_location code) s
                    else s)
          in Inr (type_upd ty (\<lambda>r. r\<lparr>st_props := (st_props r)(kind := code)\<rparr>) s1))"

definition symbol_class_set ::
  "uniqstr \<Rightarrow> symbol_class \<Rightarrow> location \<Rightarrow> bool \<Rightarrow> state \<Rightarrow> error + state" where
  "symbol_class_set sy cls loc declaring s =
     (case sym_at s sy of
        None \<Rightarrow> Inl Bad_pointer
      | Some r \<Rightarrow>
          let warned = (sym_class r \<noteq> unknown_sym \<and> sym_class r \<noteq> cls)
          in ebind
               (if warned
                then complain (Some loc) complaint ''symbol %s redefined'' [Str (tag r)] s
                else Inr s)
               (\<lambda>s1.
                  let s2 =
                        (if cls = nterm_sym \<and> sym_class r \<noteq> nterm_sym
                         then (sym_upd sy (\<lambda>r. r\<lparr>number := nvars s1\<rparr>) s1)
                                \<lparr>nvars := nvars s1 + 1\<rparr>
                         else if cls = token_sym \<and> number r = NUMBER_UNDEFINED
                         then (sym_upd sy (\<lambda>r. r\<lparr>number := ntokens s1\<rparr>) s1)
                                \<lparr>ntokens := ntokens s1 + 1\<rparr>
                         else s1);
                      s3 = sym_upd sy (\<lambda>r. r\<lparr>sym_class := cls\<rparr>) s2
                  in if declaring
                     then ebind
                            (if status r = declared \<and> \<not> warned
                             then complain (Some loc) Wother ''symbol %s redeclared''
                                    [Str (tag r)] s3
                             else Inr s3)
                            (\<lambda>s4. Inr (sym_upd sy (\<lambda>r. r\<lparr>status := declared\<rparr>) s4))
                     else Inr s3))"

text \<open>
  Modelled from the spec: \<^verbatim>\<open>assoc_to_string\<close> is defined in assoc.c, which is not part
  of the sources at hand; it names the directive that declares the associativity.
\<close>

definition assoc_to_string :: "assoc \<Rightarrow> string" where
  "assoc_to_string a =
     (case a of
        undef_assoc \<Rightarrow> ''undefined associativity''
      | right_assoc \<Rightarrow> ''%right''
      | left_assoc \<Rightarrow> ''%left''
      | non_assoc \<Rightarrow> ''%nonassoc''
      | precedence_assoc \<Rightarrow> ''%precedence'')"

definition symbol_precedence_set ::
  "uniqstr \<Rightarrow> int \<Rightarrow> assoc \<Rightarrow> location \<Rightarrow> state \<Rightarrow> error + state" where
  "symbol_precedence_set sy p a loc s =
     (case sym_at s sy of
        None \<Rightarrow> Inl Bad_pointer
      | Some r \<Rightarrow>
          let s1 =
                (if a \<noteq> undef_assoc
                 then
                   let s0 = (if prec r \<noteq> 0
                             then symbol_redeclaration r (assoc_to_string a)
                                    (prec_location r) loc s
                             else s)
                   in sym_upd sy (\<lambda>r. r\<lparr>prec := p, assoc := a, prec_location := loc\<rparr>) s0
                 else s)
          in symbol_class_set sy token_sym loc False s1)"

definition symbol_user_token_number_set ::
  "uniqstr \<Rightarrow> int \<Rightarrow> location \<Rightarrow> state \<Rightarrow> error + state" where
  "symbol_user_token_number_set sy n loc s =
     (case sym_at s sy of
        None \<Rightarrow> Inl Bad_pointer
      | Some r \<Rightarrow>
          ebind
            (if user_token_number r \<noteq> USER_NUMBER_HAS_STRING_ALIAS then Inr sy
             else (case sym_alias r of None \<Rightarrow> Inl Bad_pointer | Some a \<Rightarrow> Inr a))
            (\<lambda>user_token_numberp.
               case sym_at s user_token_numberp of
                 None \<Rightarrow> Inl Bad_pointer
               | Some t \<Rightarrow>
                   ebind
                     (if user_token_number t \<noteq> USER_NUMBER_UNDEFINED
                         \<and> user_token_number t \<noteq> n
                      then complain (Some loc) complaint
                             ''redefining user token number of %s'' [Str (tag r)] s
                      else Inr s)
                     (\<lambda>s1.
                        let s2 = sym_upd user_token_numberp
                                   (\<lambda>t. t\<lparr>user_token_number := n\<rparr>) s1
                        in if n = 0
                           then
                             let s3 = s2\<lparr>endtoken := Some sy\<rparr>;
                                 s4 = (if number r \<noteq> NUMBER_UNDEFINED
                                       then s3\<lparr>ntokens := ntokens s3 - 1\<rparr> else s3)
                             in Inr (sym_upd sy (\<lambda>r. r\<lparr>number := 0\<rparr>) s4)
                           else Inr s2)))"


subsection \<open>The stores\<close>

definition symbol_from_uniqstr :: "uniqstr \<Rightarrow> location \<Rightarrow> state \<Rightarrow> error + (uniqstr \<times> state)" where
  "symbol_from_uniqstr key loc s =
     (case sym_at s key of
        Some _ \<Rightarrow> Inr (key, s)
      | None \<Rightarrow>
          if symbols_sorted s \<noteq> None then Inl Aver_failed
          else ebind (symbol_new key loc s)
                 (\<lambda>(entry, s1).
                    Inr (key, s1\<lparr>symbol_table := symbol_table s1 @ [(key, entry)]\<rparr>)))"

definition semantic_type_from_uniqstr ::
  "uniqstr \<Rightarrow> location option \<Rightarrow> state \<Rightarrow> uniqstr \<times> state" where
  "semantic_type_from_uniqstr key loc s =
     (case type_at s key of
        Some _ \<Rightarrow> (key, s)
      | None \<Rightarrow>
          (key, s\<lparr>semantic_type_table :=
                    semantic_type_table s @ [(key, semantic_type_new key loc)]\<rparr>))"

text \<open>\<^verbatim>\<open>uniqstr_new\<close> interns the key; a tag is its own interned form here.\<close>

definition symbol_get :: "string \<Rightarrow> location \<Rightarrow> state \<Rightarrow> error + (uniqstr \<times> state)" where
  "symbol_get key loc s = symbol_from_uniqstr key loc s"

definition semantic_type_get :: "string \<Rightarrow> location option \<Rightarrow> state \<Rightarrow> uniqstr \<times> state" where
  "semantic_type_get key loc s = semantic_type_from_uniqstr key loc s"

text \<open>
  \<^verbatim>\<open>symbol_code_props_get\<close> returns the address of a \<^verbatim>\<open>code_props\<close>: a slot of a
  symbol, a slot of a semantic type, or the global \<^verbatim>\<open>code_props_none\<close>.
\<close>

datatype props_ref =
    Sym_props uniqstr code_props_type
  | Type_props uniqstr code_props_type
  | Props_none

definition symbol_code_props_get ::
  "uniqstr \<Rightarrow> code_props_type \<Rightarrow> state \<Rightarrow> error + (props_ref \<times> state)" where
  "symbol_code_props_get sy kind s =
     (case sym_at s sy of
        None \<Rightarrow> Inl Bad_pointer
      | Some r \<Rightarrow>
          if cp_code (props r kind) \<noteq> None then Inr (Sym_props sy kind, s)
          else
            ebind
              (case type_name r of
                 None \<Rightarrow> Inr (None, s)
               | Some tn \<Rightarrow>
                   (case semantic_type_get tn None s of
                      (ty, s1) \<Rightarrow>
                        (case type_at s1 ty of
                           None \<Rightarrow> Inl Bad_pointer
                         | Some t \<Rightarrow>
                             Inr (if cp_code (st_props t kind) \<noteq> None
                                  then Some (Type_props ty kind) else None, s1))))
              (\<lambda>(found, s1).
                 case found of
                   Some code \<Rightarrow> Inr (code, s1)
                 | None \<Rightarrow>
                     if (case tag r of [] \<Rightarrow> True | c # _ \<Rightarrow> c \<noteq> CHR ''$'')
                        \<and> Some sy \<noteq> errtoken s1
                     then
                       (case semantic_type_get (if type_name r \<noteq> None then ''*'' else [])
                               None s1 of
                          (ty, s2) \<Rightarrow>
                            (case type_at s2 ty of
                               None \<Rightarrow> Inl Bad_pointer
                             | Some t \<Rightarrow>
                                 if cp_code (st_props t kind) \<noteq> None
                                 then Inr (Type_props ty kind, s2)
                                 else Inr (Props_none, s2)))
                     else Inr (Props_none, s1)))"

definition set_is_used :: "props_ref \<Rightarrow> state \<Rightarrow> state" where
  "set_is_used code s =
     (case code of
        Sym_props p k \<Rightarrow>
          sym_upd p (\<lambda>r. r\<lparr>props := (props r)(k := (props r k)\<lparr>cp_is_used := True\<rparr>)\<rparr>) s
      | Type_props p k \<Rightarrow>
          type_upd p
            (\<lambda>r. r\<lparr>st_props := (st_props r)(k := (st_props r k)\<lparr>cp_is_used := True\<rparr>)\<rparr>) s
      | Props_none \<Rightarrow> s\<lparr>code_props_none := (code_props_none s)\<lparr>cp_is_used := True\<rparr>\<rparr>)"

subsection \<open>Checking that symbols are defined\<close>

definition symbol_check_defined :: "uniqstr \<Rightarrow> state \<Rightarrow> error + state" where
  "symbol_check_defined sy s =
     (case sym_at s sy of
        None \<Rightarrow> Inl Bad_pointer
      | Some r \<Rightarrow>
          ebind
            (if sym_class r = unknown_sym
             then
               if status r = declared then Inl Aver_failed
               else
                 ebind
                   (complain (Some (location r))
                      (if status r = needed then complaint else Wother)
                      ''symbol %s is used, but is not defined as a token and has no rules''
                      [Str (tag r)] s)
                   (\<lambda>s1.
                      Inr ((sym_upd sy (\<lambda>r. r\<lparr>sym_class := nterm_sym, number := nvars s1\<rparr>) s1)
                             \<lparr>nvars := nvars s1 + 1\<rparr>))
             else Inr s)
            (\<lambda>s2.
               ebind
                 (for_each
                    (\<lambda>i s. ebind (symbol_code_props_get sy i s)
                             (\<lambda>(code, s). Inr (set_is_used code s)))
                    [destructor, printer] s2)
                 (\<lambda>s3.
                    case sym_at s3 sy of
                      None \<Rightarrow> Inl Bad_pointer
                    | Some r3 \<Rightarrow>
                        (case type_name r3 of
                           None \<Rightarrow> Inr s3
                         | Some tn \<Rightarrow>
                             (case semantic_type_get tn None s3 of
                                (sem_type, s4) \<Rightarrow>
                                  Inr (type_upd sem_type
                                         (\<lambda>t. t\<lparr>st_status := declared\<rparr>) s4))))))"

definition semantic_type_check_defined :: "uniqstr \<Rightarrow> state \<Rightarrow> error + state" where
  "semantic_type_check_defined sem_type s =
     (case type_at s sem_type of
        None \<Rightarrow> Inl Bad_pointer
      | Some t \<Rightarrow>
          if st_status t = declared \<or> st_tag t = [] \<or> st_tag t = ''*''
          then
            for_each
              (\<lambda>i s.
                 if cp_kind (st_props t i) \<noteq> CODE_PROPS_NONE \<and> \<not> cp_is_used (st_props t i)
                 then complain (Some (st_location t)) Wother ''useless %s for type <%s>''
                        [Str (code_props_type_string i), Str (st_tag t)] s
                 else Inr s)
              [destructor, printer] s
          else complain (Some (st_location t)) Wother
                 ''type <%s> is used, but is not associated to any symbol''
                 [Str (st_tag t)] s)"

text \<open>
  \<^verbatim>\<open>symbols_do\<close> runs a processor over the entries of a table in the order of their
  tags. The sorted array is allocated by the first invocation and reused afterwards; the
  number of entries processed is the current size of the table.
\<close>

definition symbols_do ::
  "(uniqstr \<Rightarrow> state \<Rightarrow> error + state) \<Rightarrow> (state \<Rightarrow> uniqstr list) \<Rightarrow>
   (state \<Rightarrow> uniqstr list option) \<Rightarrow> (uniqstr list option \<Rightarrow> state \<Rightarrow> state) \<Rightarrow>
   state \<Rightarrow> error + state" where
  "symbols_do processor table sorted_cache sorted_set s =
     (let count = length (table s);
          arr = (case sorted_cache s of None \<Rightarrow> sort (table s) | Some a \<Rightarrow> a);
          s1 = (case sorted_cache s of None \<Rightarrow> sorted_set (Some arr) s | Some _ \<Rightarrow> s)
      in ebind (for_each processor (take count arr) s1)
           (\<lambda>s2. if count \<le> length arr then Inr s2 else Inl Out_of_bounds))"

definition symbol_entries :: "state \<Rightarrow> uniqstr list" where
  "symbol_entries s = map fst (symbol_table s)"

definition semantic_type_entries :: "state \<Rightarrow> uniqstr list" where
  "semantic_type_entries s = map fst (semantic_type_table s)"

definition symbols_do_symbols :: "(uniqstr \<Rightarrow> state \<Rightarrow> error + state) \<Rightarrow> state \<Rightarrow> error + state" where
  "symbols_do_symbols processor s =
     symbols_do processor symbol_entries symbols_sorted
       (\<lambda>v s. s\<lparr>symbols_sorted := v\<rparr>) s"

definition symbols_do_semantic_types ::
  "(uniqstr \<Rightarrow> state \<Rightarrow> error + state) \<Rightarrow> state \<Rightarrow> error + state" where
  "symbols_do_semantic_types processor s =
     symbols_do processor semantic_type_entries semantic_types_sorted
       (\<lambda>v s. s\<lparr>semantic_types_sorted := v\<rparr>) s"

definition symbols_check_defined :: "state \<Rightarrow> error + state" where
  "symbols_check_defined s =
     ebind (symbols_do_symbols symbol_check_defined s)
       (symbols_do_semantic_types semantic_type_check_defined)"

subsection \<open>Aliases and packing\<close>




subsection \<open>Token translations\<close>

definition user_token_number_redeclaration ::
  "int \<Rightarrow> symbol \<Rightarrow> symbol \<Rightarrow> state \<Rightarrow> state" where
  "user_token_number_redeclaration num first second s =
     (let swap = (location_cmp (location first) (location second) > 0);
          first' = (if swap then second else first);
          second' = (if swap then first else second);
          i = 0;
          s1 = complain_indent (location second') complaint i
                 ''user token number %d redeclaration for %s''
                 [Num num, Str (tag second')] s;
          i = i + SUB_INDENT
      in complain_indent (location first') complaint i ''previous declaration for %s''
           [Str (tag first')] s1)"








subsection \<open>Packing the symbols\<close>





section \<open>The precedence relation graph\<close>

subsection \<open>Printing a link\<close>

text \<open>
  Modelled from the spec: \<^verbatim>\<open>symgraph\<close> is declared in symtab.h, which is not part of
  the sources at hand. A node stores its id, the sorted lists of its successors and
  predecessors, its degrees, the next member of its group and, for a group, the first
  member. Pointers to nodes are indices into \<^verbatim>\<open>prec_nodes\<close>.
\<close>

record symgraph =
  sg_id :: int
  sg_succ :: "int list"
  sg_pred :: "int list"
  sg_symbols :: "int option"
  sg_groupnext :: "int option"
  sg_indegree :: int
  sg_outdegree :: int

definition is_group :: "int \<Rightarrow> symgraph \<Rightarrow> bool" where
  "is_group n_syms g = (sg_id g \<ge> n_syms)"

partial_function (option) get_first_symbol ::
  "int \<Rightarrow> symgraph list \<Rightarrow> symgraph \<Rightarrow> (error + int) option" where
  "get_first_symbol n_syms nodes graph =
     (if is_group n_syms graph
      then (case sg_symbols graph of
              None \<Rightarrow> Some (Inl Bad_pointer)
            | Some p \<Rightarrow>
                if 0 \<le> p \<and> p < int (length nodes)
                then get_first_symbol n_syms nodes (nodes ! nat p)
                else Some (Inl Bad_pointer))
      else Some (Inr (sg_id graph)))"

declare get_first_symbol.simps [code]

text \<open>
  The line printed for a link: the two end points, the cluster anchors and the colour,
  as the \<^verbatim>\<open>fprintf\<close> calls of \<^verbatim>\<open>print_graph_link\<close> give them.
\<close>

record dot_link =
  link_tail :: int
  link_head :: int
  link_lhead :: "int option"
  link_ltail :: "int option"
  link_color :: string

definition link_colour :: "symgraph \<Rightarrow> symgraph \<Rightarrow> bool \<Rightarrow> string" where
  "link_colour tsym hsym col =
     (if col
      then
        if sg_outdegree tsym = 1
        then (if sg_indegree hsym = 1 then ''red'' else ''blue'')
        else if sg_indegree hsym = 1 then ''red''
        else ''black''
      else ''black'')"

definition print_graph_link ::
  "int \<Rightarrow> symgraph list \<Rightarrow> int \<Rightarrow> int \<Rightarrow> bool \<Rightarrow> (error + dot_link) option" where
  "print_graph_link n_syms nodes tail head col =
     (if 0 \<le> tail \<and> tail < int (length nodes) \<and> 0 \<le> head \<and> head < int (length nodes)
      then
        let tsym = nodes ! nat tail;
            hsym = nodes ! nat head;
            color = link_colour tsym hsym col
        in (case get_first_symbol n_syms nodes tsym of
              None \<Rightarrow> None
            | Some (Inl e) \<Rightarrow> Some (Inl e)
            | Some (Inr t) \<Rightarrow>
                (case get_first_symbol n_syms nodes hsym of
                   None \<Rightarrow> None
                 | Some (Inl e) \<Rightarrow> Some (Inl e)
                 | Some (Inr h) \<Rightarrow>
                     Some (Inr
                       \<lparr>link_tail = t, link_head = h,
                        link_lhead = (if is_group n_syms hsym then Some head else None),
                        link_ltail = (if is_group n_syms tsym then Some tail else None),
                        link_color = color\<rparr>)))
      else Some (Inl Out_of_bounds))"

text \<open>The legend that \<^verbatim>\<open>print_rel_dot_graph\<close> prints ahead of the links.\<close>

definition legend_colour :: "bool \<Rightarrow> bool \<Rightarrow> string option" where
  "legend_colour outdegree_is_1 indegree_is_1 =
     (if outdegree_is_1 \<and> \<not> indegree_is_1 then Some ''blue''
      else if outdegree_is_1 \<and> indegree_is_1 then Some ''red''
      else if \<not> outdegree_is_1 \<and> indegree_is_1 then Some ''green''
      else None)"

subsection \<open>Registering a precedence relation\<close>

definition init_prec_nodes :: "int \<Rightarrow> symgraph list" where
  "init_prec_nodes n_syms =
     map (\<lambda>i. \<lparr>sg_id = int i, sg_succ = [], sg_pred = [], sg_symbols = None,
               sg_groupnext = None, sg_indegree = 0, sg_outdegree = 0\<rparr>)
       [0..<nat n_syms]"

text \<open>
  The walk of \<^verbatim>\<open>register_precedence_second_symbol\<close> along a list that is not empty
  and whose first id is not above the new one: \<open>x\<close> is the current link, the second
  argument the links after it.
\<close>

fun insert_after :: "int \<Rightarrow> int list \<Rightarrow> int \<Rightarrow> bool \<times> int list" where
  "insert_after x [] sy = (if x = sy then (False, [x]) else (True, [x, sy]))"
| "insert_after x (y # ys) sy =
     (if y \<le> sy then (case insert_after y ys sy of (b, l) \<Rightarrow> (b, x # l))
      else if x = sy then (False, x # y # ys)
      else (True, x # sy # y # ys))"

definition register_precedence_second_symbol :: "int list \<Rightarrow> int \<Rightarrow> bool \<times> int list" where
  "register_precedence_second_symbol first sy =
     (case first of
        [] \<Rightarrow> (True, [sy])
      | x # xs \<Rightarrow> if sy < x then (True, sy # x # xs) else insert_after x xs sy)"

definition register_precedence ::
  "int \<Rightarrow> int \<Rightarrow> int \<Rightarrow> symgraph list option \<Rightarrow> error + symgraph list option" where
  "register_precedence n_syms first second prec_nodes =
     (let nodes = (case prec_nodes of None \<Rightarrow> init_prec_nodes n_syms | Some ns \<Rightarrow> ns)
      in if 0 \<le> first \<and> first < int (length nodes)
            \<and> 0 \<le> second \<and> second < int (length nodes)
         then
           let (new1, l1) =
                 register_precedence_second_symbol (sg_succ (nodes ! nat first)) second;
               nodes1 = nodes[nat first := (nodes ! nat first)\<lparr>sg_succ := l1\<rparr>];
               nodes2 = (if new1
                         then nodes1[nat first := (nodes1 ! nat first)
                                \<lparr>sg_outdegree := sg_outdegree (nodes1 ! nat first) + 1\<rparr>]
                         else nodes1);
               (new2, l2) =
                 register_precedence_second_symbol (sg_pred (nodes2 ! nat second)) first;
               nodes3 = nodes2[nat second := (nodes2 ! nat second)\<lparr>sg_pred := l2\<rparr>];
               nodes4 = (if new2
                         then nodes3[nat second := (nodes3 ! nat second)
                                \<lparr>sg_indegree := sg_indegree (nodes3 ! nat second) + 1\<rparr>]
                         else nodes3)
           in Inr (Some nodes4)
         else Inl Out_of_bounds)"

subsection \<open>Transitive closure and reduction\<close>








section \<open>Notions used in the properties\<close>

text \<open>The user token numbers of the tokens, read through \<open>symbols[0 .. ntokens)\<close>.\<close>

definition symbol_user_number :: "state \<Rightarrow> uniqstr option \<Rightarrow> int" where
  "symbol_user_number s q =
     (case q of
        None \<Rightarrow> USER_NUMBER_UNDEFINED
      | Some p \<Rightarrow>
          (case sym_at s p of
             None \<Rightarrow> USER_NUMBER_UNDEFINED
           | Some r \<Rightarrow> user_token_number r))"








text \<open>
  Node \<open>j\<close> can be reached from node \<open>i\<close> in the graph of the matrix \<open>g\<close> along a path
  whose intermediate nodes are all below \<open>k\<close>.
\<close>

inductive reach_below :: "nat \<Rightarrow> bool list list \<Rightarrow> nat \<Rightarrow> nat \<Rightarrow> nat \<Rightarrow> bool"
  for n :: nat and g :: "bool list list" and k :: nat
  where
    edge: "i < n \<Longrightarrow> j < n \<Longrightarrow> g ! i ! j \<Longrightarrow> reach_below n g k i j"
  | through: "reach_below n g k i m \<Longrightarrow> m < k \<Longrightarrow> reach_below n g k m j
              \<Longrightarrow> reach_below n g k i j"

section \<open>Example runs\<close>

text \<open>
  The examples start from empty stores with all counters at zero and apply the operations
  of the symbol table one after the other, stopping at the first error.
\<close>

definition empty_state :: state where
  "empty_state =
     \<lparr>symbol_table = [], semantic_type_table = [], symbols_sorted = None,
      semantic_types_sorted = None, nsyms = 0, ntokens = 0, nvars = 0, symbols = [],
      token_translations = [], max_user_token_number = 0, errtoken = None,
      undeftoken = None, endtoken = None, accept = None, startsymbol = None,
      startsymbol_location = empty_location, code_props_none = code_props_none_init,
      diagnostics = []\<rparr>"

definition intern :: "string \<Rightarrow> location \<Rightarrow> state \<Rightarrow> error + state" where
  "intern key loc s = ebind (symbol_get key loc s) (\<lambda>(p, s). Inr s)"

definition run :: "(state \<Rightarrow> error + state) list \<Rightarrow> state \<Rightarrow> error + state" where
  "run ops s = for_each (\<lambda>f. f) ops s"

definition symbol_of :: "error + state \<Rightarrow> uniqstr \<Rightarrow> symbol option" where
  "symbol_of r p = (case r of Inl _ \<Rightarrow> None | Inr s \<Rightarrow> sym_at s p)"

definition state_of :: "error + state \<Rightarrow> state option" where
  "state_of r = (case r of Inl _ \<Rightarrow> None | Inr s \<Rightarrow> Some s)"

definition the_state :: "error + state \<Rightarrow> state" where
  "the_state r = (case r of Inl _ \<Rightarrow> empty_state | Inr s \<Rightarrow> s)"

text \<open>A token \<open>T\<close> numbered 0 and a nonterminal \<open>exp\<close> numbered 0.\<close>

definition token_and_nterm :: state where
  "token_and_nterm =
     the_state (run [intern ''T'' 1, symbol_class_set ''T'' token_sym 1 True,
                     intern ''exp'' 2, symbol_class_set ''exp'' nterm_sym 2 True]
                  empty_state)"

text \<open>The symbol \<open>exp\<close> with the type \<open>INT\<close>, declared at location 1.\<close>

definition typed_symbol :: state where
  "typed_symbol =
     the_state (run [intern ''exp'' 1, symbol_type_set ''exp'' (Some ''INT'') 1] empty_state)"

text \<open>
  Four nodes and the precedence relations \<open>1 > 2\<close> and \<open>1 > 3\<close>: the out-degree of
  node 1 is 2, the in-degree of nodes 2 and 3 is 1.
\<close>

definition fork_nodes :: "symgraph list" where
  "fork_nodes =
     (case ebind (register_precedence 4 1 2 None) (register_precedence 4 1 3) of
        Inr (Some nodes) \<Rightarrow> nodes
      | _ \<Rightarrow> [])"






text \<open>
  The nonterminal \<open>exp\<close> after \<^verbatim>\<open>symbols_check_defined\<close>, which has allocated both
  sorted arrays, then given the type \<open>T\<close>.
\<close>

definition after_check_defined :: state where
  "after_check_defined =
     the_state (run [intern ''exp'' 1, symbol_class_set ''exp'' nterm_sym 1 True,
                     symbols_check_defined,
                     symbol_type_set ''exp'' (Some ''T'') 2]
                  empty_state)"





section \<open>Properties\<close>

subsection \<open>Reading and writing symbols\<close>

lemma sym_at_sym_upd:
  "sym_at (sym_upd p f s) q = (if q = p then map_option f (sym_at s p) else sym_at s q)"
  by (simp add: sym_at_def sym_upd_def map_of_map_entry split: option.splits)

lemma sym_upd_fields [simp]:
  "nsyms (sym_upd p f s) = nsyms s" "ntokens (sym_upd p f s) = ntokens s"
  "nvars (sym_upd p f s) = nvars s" "symbols (sym_upd p f s) = symbols s"
  "diagnostics (sym_upd p f s) = diagnostics s"
  "symbols_sorted (sym_upd p f s) = symbols_sorted s"
  "semantic_types_sorted (sym_upd p f s) = semantic_types_sorted s"
  "semantic_type_table (sym_upd p f s) = semantic_type_table s"
  "token_translations (sym_upd p f s) = token_translations s"
  "max_user_token_number (sym_upd p f s) = max_user_token_number s"
  "errtoken (sym_upd p f s) = errtoken s" "undeftoken (sym_upd p f s) = undeftoken s"
  "endtoken (sym_upd p f s) = endtoken s" "startsymbol (sym_upd p f s) = startsymbol s"
  by (simp_all add: sym_upd_def)

lemma sym_at_fields [simp]:
  "sym_at (s\<lparr>nvars := a\<rparr>) = sym_at s" "sym_at (s\<lparr>ntokens := a\<rparr>) = sym_at s"
  "sym_at (s\<lparr>nsyms := a\<rparr>) = sym_at s" "sym_at (s\<lparr>diagnostics := d\<rparr>) = sym_at s"
  "sym_at (s\<lparr>endtoken := e\<rparr>) = sym_at s" "sym_at (s\<lparr>symbols := y\<rparr>) = sym_at s"
  "sym_at (s\<lparr>max_user_token_number := m\<rparr>) = sym_at s"
  "sym_at (s\<lparr>token_translations := tt\<rparr>) = sym_at s"
  "sym_at (s\<lparr>symbols_sorted := ss\<rparr>) = sym_at s"
  "sym_at (s\<lparr>semantic_type_table := stt\<rparr>) = sym_at s"
  by (simp_all add: sym_at_def fun_eq_iff)

subsection \<open>Setting the precedence with an undefined associativity\<close>

text \<open>
  C3. The claim: \<^verbatim>\<open>symbol_precedence_set (s, prec, undef_assoc, loc)\<close> is a no-op that
  leaves the class, the number and the counters unchanged. The header comment of the
  function says the same. The code calls \<^verbatim>\<open>symbol_class_set\<close> with \<^verbatim>\<open>token_sym\<close>
  whatever the associativity: for a fresh symbol \<open>exp\<close>, of unknown class and undefined
  number, the call makes it a token, numbers it 0 and increments \<^verbatim>\<open>ntokens\<close>.
\<close>

theorem symbol_precedence_set_undef_assoc_makes_token:
  "map_option sym_class (symbol_of (intern ''exp'' 1 empty_state) ''exp'') = Some unknown_sym
   \<and> map_option number (symbol_of (intern ''exp'' 1 empty_state) ''exp'')
       = Some NUMBER_UNDEFINED
   \<and> map_option ntokens (state_of (intern ''exp'' 1 empty_state)) = Some 0
   \<and> map_option sym_class (symbol_of (run [intern ''exp'' 1,
        symbol_precedence_set ''exp'' 5 undef_assoc 2] empty_state) ''exp'') = Some token_sym
   \<and> map_option number (symbol_of (run [intern ''exp'' 1,
        symbol_precedence_set ''exp'' 5 undef_assoc 2] empty_state) ''exp'') = Some 0
   \<and> map_option ntokens (state_of (run [intern ''exp'' 1,
        symbol_precedence_set ''exp'' 5 undef_assoc 2] empty_state)) = Some 1"
  by code_simp

subsection \<open>The number that the class of a symbol assigns\<close>

text \<open>
  C4, as stated: \<^verbatim>\<open>symbol_class_set\<close> leaves the number of a symbol unchanged when the
  number is already defined. It does not: the token \<open>T\<close>, numbered 0, is given the number
  1 (the value of \<^verbatim>\<open>nvars\<close>) when it is set to the class of nonterminals.
\<close>

theorem symbol_class_set_renumbers_token:
  "map_option number (sym_at token_and_nterm ''T'') = Some 0
   \<and> map_option sym_class (sym_at token_and_nterm ''T'') = Some token_sym
   \<and> map_option number
        (symbol_of (symbol_class_set ''T'' nterm_sym 3 True token_and_nterm) ''T'') = Some 1"
  by code_simp

text \<open>
  C4, amended: \<^verbatim>\<open>symbol_class_set\<close> always returns; it assigns \<^verbatim>\<open>nvars\<close> (and
  increments \<^verbatim>\<open>nvars\<close>) when the new class is \<^verbatim>\<open>nterm_sym\<close> and the class of the
  symbol was not, whether its number was defined or not; it assigns \<^verbatim>\<open>ntokens\<close> (and
  increments \<^verbatim>\<open>ntokens\<close>) when the new class is \<^verbatim>\<open>token_sym\<close> and the number was
  undefined; in every other case the number and both counters are unchanged. The numbers
  of the other symbols never change.
\<close>

theorem symbol_class_set_number:
  assumes "sym_at s p = Some r"
  shows "\<exists>s'. symbol_class_set p cls loc declaring s = Inr s'
           \<and> map_option number (sym_at s' p) =
               Some (if cls = nterm_sym \<and> sym_class r \<noteq> nterm_sym then nvars s
                     else if cls = token_sym \<and> number r = NUMBER_UNDEFINED then ntokens s
                     else number r)
           \<and> nvars s' = (if cls = nterm_sym \<and> sym_class r \<noteq> nterm_sym
                          then nvars s + 1 else nvars s)
           \<and> ntokens s' = (if cls = token_sym \<and> number r = NUMBER_UNDEFINED
                            then ntokens s + 1 else ntokens s)
           \<and> map_option sym_class (sym_at s' p) = Some cls
           \<and> (\<forall>q. q \<noteq> p \<longrightarrow> sym_at s' q = sym_at s q)"
  using assms
  by (auto simp add: symbol_class_set_def ebind_def complain_def Let_def sym_at_sym_upd)

theorem symbol_class_set_number_witness:
  "sym_at token_and_nterm ''T'' \<noteq> None
   \<and> map_option number
       (symbol_of (symbol_class_set ''T'' nterm_sym 3 True token_and_nterm) ''T'') = Some 1
   \<and> map_option nvars (state_of (symbol_class_set ''T'' nterm_sym 3 True token_and_nterm))
       = Some 2
   \<and> map_option number
       (symbol_of (symbol_class_set ''T'' token_sym 3 True token_and_nterm) ''T'') = Some 0
   \<and> map_option ntokens (state_of (symbol_class_set ''T'' token_sym 3 True token_and_nterm))
       = Some 1"
proof -
  have "map_option number (sym_at token_and_nterm ''T'') = Some 0"
    and "map_option sym_class (sym_at token_and_nterm ''T'') = Some token_sym"
    and "nvars token_and_nterm = 1" and "ntokens token_and_nterm = 1"
    by code_simp+
  then obtain r where r: "sym_at token_and_nterm ''T'' = Some r" "number r = 0"
    "sym_class r = token_sym" and n: "nvars token_and_nterm = 1" "ntokens token_and_nterm = 1"
    by auto
  from symbol_class_set_number [OF r(1), of nterm_sym 3 True]
       symbol_class_set_number [OF r(1), of token_sym 3 True] r n
  show ?thesis
    by (auto simp add: symbol_of_def state_of_def NUMBER_UNDEFINED_def)
qed

subsection \<open>The user token number 0\<close>

text \<open>
  C6. The claim: \<^verbatim>\<open>symbol_user_token_number_set (s, 0, loc)\<close> decrements
  \<^verbatim>\<open>ntokens\<close> exactly when \<open>s\<close> had been counted as a token. The comment in the code
  gives the same reason for the decrement (the symbol was already counted in
  \<^verbatim>\<open>ntokens\<close>), but the test of the code is that the number of the symbol is defined.
  The nonterminal \<open>exp\<close> was numbered from \<^verbatim>\<open>nvars\<close> and never counted in
  \<^verbatim>\<open>ntokens\<close>; the call takes \<^verbatim>\<open>ntokens\<close> from 1 to 0 all the same.
\<close>

theorem symbol_user_token_number_set_zero_on_nterm:
  "map_option sym_class (sym_at token_and_nterm ''exp'') = Some nterm_sym
   \<and> ntokens token_and_nterm = 1
   \<and> map_option ntokens
       (state_of (symbol_user_token_number_set ''exp'' 0 3 token_and_nterm)) = Some 0
   \<and> map_option endtoken
       (state_of (symbol_user_token_number_set ''exp'' 0 3 token_and_nterm))
       = Some (Some ''exp'')
   \<and> map_option sym_class
       (symbol_of (symbol_user_token_number_set ''exp'' 0 3 token_and_nterm) ''exp'')
       = Some nterm_sym"
  by code_simp

subsection \<open>Declaring the type of a symbol twice\<close>

text \<open>
  C8, as stated: a second \<^verbatim>\<open>symbol_type_set\<close> with another type complains and leaves
  the type of the symbol at its original value. It does not: the type \<open>INT\<close> of \<open>exp\<close>
  is replaced by \<open>STR\<close>.
\<close>

theorem symbol_type_set_overwrites:
  "map_option type_name (sym_at typed_symbol ''exp'') = Some (Some ''INT'')
   \<and> map_option type_name
       (symbol_of (symbol_type_set ''exp'' (Some ''STR'') 2 typed_symbol) ''exp'')
       = Some (Some ''STR'')"
  by code_simp

text \<open>
  C8, amended: for every symbol whose type is already set, a second
  \<^verbatim>\<open>symbol_type_set\<close> with a type that is not null emits the redeclaration complaint at
  the new location, followed by the indented note at the previous location, and then
  stores the new type and the new location in the symbol; no other symbol changes.
\<close>

theorem symbol_type_set_redeclaration:
  assumes "sym_at s p = Some r" and "type_name r = Some t1"
  shows "\<exists>s'. symbol_type_set p (Some t2) l2 s = Inr s'
           \<and> diagnostics s' = diagnostics s @
               [make_diag (Some l2) complaint 0 ''%s redeclaration for %s''
                  [Str ''%type'', Str (tag r)],
                make_diag (Some (type_location r)) complaint SUB_INDENT
                  ''previous declaration'' []]
           \<and> sym_at s' p = Some (r\<lparr>type_name := Some t2, type_location := l2\<rparr>)
           \<and> (\<forall>q. q \<noteq> p \<longrightarrow> sym_at s' q = sym_at s q)"
  using assms
  by (simp add: symbol_type_set_def symbol_redeclaration_def complain_indent_def
      sym_at_sym_upd Let_def)

theorem symbol_type_set_redeclaration_witness:
  "sym_at typed_symbol ''exp'' \<noteq> None
   \<and> map_option type_name (sym_at typed_symbol ''exp'') = Some (Some ''INT'')
   \<and> map_option type_name
       (symbol_of (symbol_type_set ''exp'' (Some ''STR'') 2 typed_symbol) ''exp'')
       = Some (Some ''STR'')
   \<and> map_option (\<lambda>s. map d_location (diagnostics s))
       (state_of (symbol_type_set ''exp'' (Some ''STR'') 2 typed_symbol))
       = Some [Some 2, Some 1]"
proof -
  have "map_option type_name (sym_at typed_symbol ''exp'') = Some (Some ''INT'')"
    and "map_option type_location (sym_at typed_symbol ''exp'') = Some 1"
    and "diagnostics typed_symbol = []"
    by code_simp+
  then obtain r where r: "sym_at typed_symbol ''exp'' = Some r" "type_name r = Some ''INT''"
    "type_location r = 1" and d: "diagnostics typed_symbol = []"
    by auto
  from symbol_type_set_redeclaration [OF r(1) r(2), of "''STR''" 2] r d
  show ?thesis
    by (auto simp add: symbol_of_def state_of_def make_diag_def)
qed

subsection \<open>The colour of a link\<close>

text \<open>
  C9. The claim: a link whose head has in-degree 1 and whose tail has another
  out-degree than 1 is printed green. The legend that \<^verbatim>\<open>print_rel_dot_graph\<close> prints
  says the same. \<^verbatim>\<open>print_graph_link\<close> prints it red: with the relations \<open>1 > 2\<close> and
  \<open>1 > 3\<close>, the link from node 1 (out-degree 2) to node 2 (in-degree 1) is red.
\<close>

theorem print_graph_link_one_sided_indegree:
  "map sg_succ fork_nodes = [[], [2, 3], [], []]
   \<and> sg_outdegree (fork_nodes ! 1) = 2
   \<and> sg_indegree (fork_nodes ! 2) = 1
   \<and> print_graph_link 4 fork_nodes 1 2 True
       = Some (Inr \<lparr>link_tail = 1, link_head = 2, link_lhead = None, link_ltail = None,
                    link_color = ''red''\<rparr>)
   \<and> legend_colour False True = Some ''green''"
  by code_simp

subsection \<open>Making two symbols aliases\<close>



lemma symbol_entries_sym_upd [simp]: "symbol_entries (sym_upd p f s) = symbol_entries s"
proof -
  have "map fst (AList.map_entry p f xs) = map fst xs" for xs :: "(uniqstr \<times> symbol) list"
    by (induction xs) auto
  then show ?thesis by (simp add: symbol_entries_def sym_upd_def)
qed

lemma symbol_entries_fields [simp]:
  "symbol_entries (s\<lparr>nvars := a\<rparr>) = symbol_entries s"
  "symbol_entries (s\<lparr>ntokens := a\<rparr>) = symbol_entries s"
  "symbol_entries (s\<lparr>nsyms := a\<rparr>) = symbol_entries s"
  "symbol_entries (s\<lparr>diagnostics := d\<rparr>) = symbol_entries s"
  "symbol_entries (s\<lparr>endtoken := e\<rparr>) = symbol_entries s"
  "symbol_entries (s\<lparr>symbols := y\<rparr>) = symbol_entries s"
  "symbol_entries (s\<lparr>max_user_token_number := m\<rparr>) = symbol_entries s"
  "symbol_entries (s\<lparr>token_translations := tt\<rparr>) = symbol_entries s"
  "symbol_entries (s\<lparr>symbols_sorted := ss\<rparr>) = symbol_entries s"
  "symbol_entries (s\<lparr>semantic_type_table := stt\<rparr>) = symbol_entries s"
  by (simp_all add: symbol_entries_def)









subsection \<open>Insertions after sorting\<close>

lemma semantic_type_get_cases:
  obtains "type_at s key \<noteq> None" "semantic_type_get key loc s = (key, s)"
  | "type_at s key = None"
    "semantic_type_get key loc s
       = (key, s\<lparr>semantic_type_table :=
                   semantic_type_table s @ [(key, semantic_type_new key loc)]\<rparr>)"
  by (cases "type_at s key")
    (auto simp add: semantic_type_get_def semantic_type_from_uniqstr_def)

lemma semantic_type_get_frame:
  assumes "semantic_type_get key loc s = (ty, s')"
  shows "ty = key" and "sym_at s' = sym_at s" and "errtoken s' = errtoken s"
    and "semantic_types_sorted s' = semantic_types_sorted s"
    and "symbols_sorted s' = symbols_sorted s"
proof -
  from assms have "ty = key \<and> (s' = s \<or> s' = s\<lparr>semantic_type_table :=
                   semantic_type_table s @ [(key, semantic_type_new key loc)]\<rparr>)"
    by (cases "type_at s key")
      (auto simp add: semantic_type_get_def semantic_type_from_uniqstr_def)
  then show "ty = key" and "sym_at s' = sym_at s" and "errtoken s' = errtoken s"
    and "semantic_types_sorted s' = semantic_types_sorted s"
    and "symbols_sorted s' = symbols_sorted s"
    by auto
qed

lemma type_at_append:
  "type_at (s\<lparr>semantic_type_table := semantic_type_table s @ [(key, v)]\<rparr>) k
     = (case type_at s k of Some t \<Rightarrow> Some t | None \<Rightarrow> if k = key then Some v else None)"
  by (simp add: type_at_def map_add_def split: option.splits)

lemma semantic_type_get_present:
  assumes "semantic_type_get key loc s = (ty, s')"
  shows "type_at s' key \<noteq> None"
  using assms
  by (cases rule: semantic_type_get_cases [of s key loc])
    (auto simp add: type_at_append split: option.splits)

lemma semantic_type_get_keeps:
  assumes "semantic_type_get key loc s = (ty, s')" and "type_at s k \<noteq> None"
  shows "type_at s' k \<noteq> None"
  using assms
  by (cases rule: semantic_type_get_cases [of s key loc])
    (auto simp add: type_at_append split: option.splits)

lemma semantic_type_get_code:
  assumes "semantic_type_get key loc s = (ty, s')" and "type_at s' key = Some t"
  shows "type_at s key = Some t \<or> (type_at s key = None \<and> t = semantic_type_new key loc)"
  using assms
  by (cases rule: semantic_type_get_cases [of s key loc])
    (auto simp add: type_at_append split: option.splits)

lemma semantic_type_get_other:
  assumes "semantic_type_get key loc s = (ty, s')" and "k \<noteq> key"
  shows "type_at s' k = type_at s k"
  using assms
  by (cases rule: semantic_type_get_cases [of s key loc])
    (auto simp add: type_at_append split: option.splits)

lemma semantic_type_new_code: "cp_code (st_props (semantic_type_new key loc) kind) = None"
  by (simp add: semantic_type_new_def code_props_none_init_def)

lemma symbol_code_props_get_default:
  assumes r: "sym_at s p = Some r" and c: "cp_code (props r kind) = None"
    and ty: "\<And>tn t. type_name r = Some tn \<Longrightarrow> type_at s tn = Some t
               \<Longrightarrow> cp_code (st_props t kind) = None"
    and user: "case tag r of [] \<Rightarrow> True | c # _ \<Rightarrow> c \<noteq> CHR ''$''" "errtoken s \<noteq> Some p"
    and dk: "type_at s (if type_name r \<noteq> None then ''*'' else []) = None"
  shows "\<exists>s'. symbol_code_props_get p kind s = Inr (Props_none, s')
                \<and> type_at s' (if type_name r \<noteq> None then ''*'' else []) \<noteq> None
                \<and> semantic_types_sorted s' = semantic_types_sorted s"
proof (cases "type_name r")
  case None
  obtain ty s2 where g0: "semantic_type_get [] None s = (ty, s2)"
    by (cases "semantic_type_get [] None s")
  note fr = semantic_type_get_frame [OF g0] and pr = semantic_type_get_present [OF g0]
  from g0 fr(1) have g: "semantic_type_get [] None s = ([], s2)" by simp
  from pr obtain t where t: "type_at s2 [] = Some t" by auto
  from semantic_type_get_code [OF g0 t] dk None have "t = semantic_type_new [] None" by simp
  then have tc: "cp_code (st_props t kind) = None" by (simp add: semantic_type_new_code)
  from user(2) have u2: "Some p \<noteq> errtoken s" by auto
  have "symbol_code_props_get p kind s = Inr (Props_none, s2)"
    unfolding symbol_code_props_get_def
    by (simp add: r c None user(1) u2 g t tc ebind_def)
  with pr fr(4) None show ?thesis by simp
next
  case (Some tn)
  obtain ty1 s1 where g10: "semantic_type_get tn None s = (ty1, s1)"
    by (cases "semantic_type_get tn None s")
  note fr1 = semantic_type_get_frame [OF g10] and pr1 = semantic_type_get_present [OF g10]
  from g10 fr1(1) have g1: "semantic_type_get tn None s = (tn, s1)" by simp
  from pr1 obtain t1 where t1: "type_at s1 tn = Some t1" by auto
  from semantic_type_get_code [OF g10 t1]
  have tc1: "cp_code (st_props t1 kind) = None"
  proof
    assume "type_at s tn = Some t1"
    with ty [OF Some] show ?thesis by simp
  next
    assume "type_at s tn = None \<and> t1 = semantic_type_new tn None"
    then show ?thesis by (simp add: semantic_type_new_code)
  qed
  obtain ty2 s2 where g20: "semantic_type_get ''*'' None s1 = (ty2, s2)"
    by (cases "semantic_type_get ''*'' None s1")
  note fr2 = semantic_type_get_frame [OF g20] and pr2 = semantic_type_get_present [OF g20]
  from g20 fr2(1) have g2: "semantic_type_get ''*'' None s1 = (''*'', s2)" by simp
  from pr2 obtain t2 where t2: "type_at s2 ''*'' = Some t2" by auto
  have star: "type_at s ''*'' = None" using dk Some by simp
  have tc2: "cp_code (st_props t2 kind) = None"
  proof -
    from semantic_type_get_code [OF g20 t2]
    consider "type_at s1 ''*'' = Some t2" | "t2 = semantic_type_new ''*'' None" by auto
    then show ?thesis
    proof cases
      case 1
      have "tn = ''*''"
      proof (rule ccontr)
        assume "tn \<noteq> ''*''"
        then have "type_at s1 ''*'' = type_at s ''*''"
          using semantic_type_get_other [OF g10, of "''*''"] by simp
        with star 1 show False by simp
      qed
      with 1 t1 have "t1 = t2" by simp
      with tc1 show ?thesis by simp
    next
      case 2
      then show ?thesis by (simp add: semantic_type_new_code)
    qed
  qed
  from user(2) fr1(3) have u2: "Some p \<noteq> errtoken s1" by auto
  have "symbol_code_props_get p kind s = Inr (Props_none, s2)"
    unfolding symbol_code_props_get_def
    by (simp add: r c Some user(1) u2 g1 t1 tc1 g2 t2 tc2 ebind_def)
  with pr2 fr1(4) fr2(4) Some show ?thesis by simp
qed

text \<open>
  C10. Once the sorted array of symbols exists, \<^verbatim>\<open>symbol_from_uniqstr\<close> on a fresh key
  fails its \<^verbatim>\<open>aver\<close>. \<^verbatim>\<open>semantic_type_from_uniqstr\<close> on a fresh key always
  creates the semantic type and appends it to the table, whether the sorted array of
  semantic types exists or not, and leaves that array as it was. The default lookup of
  \<^verbatim>\<open>symbol_code_props_get\<close> does so: for a user-defined symbol with no code of its
  own and none from its type, it creates the semantic type \<open>*\<close> (or the empty tag, for
  a symbol without type) when the table does not have it, and the sorted array is not
  updated.
\<close>

theorem semantic_types_grow_after_sorting:
  "(sym_at s key = None \<and> symbols_sorted s \<noteq> None
      \<longrightarrow> symbol_from_uniqstr key loc s = Inl Aver_failed)
   \<and> (type_at s key = None
      \<longrightarrow> semantic_type_from_uniqstr key tloc s
            = (key, s\<lparr>semantic_type_table :=
                        semantic_type_table s @ [(key, semantic_type_new key tloc)]\<rparr>)
          \<and> type_at (snd (semantic_type_from_uniqstr key tloc s)) key
              = Some (semantic_type_new key tloc)
          \<and> semantic_types_sorted (snd (semantic_type_from_uniqstr key tloc s))
              = semantic_types_sorted s)
   \<and> (sym_at s p = Some r \<and> cp_code (props r kind) = None
        \<and> (\<forall>tn t. type_name r = Some tn \<longrightarrow> type_at s tn = Some t
               \<longrightarrow> cp_code (st_props t kind) = None)
        \<and> (case tag r of [] \<Rightarrow> True | c # _ \<Rightarrow> c \<noteq> CHR ''$'') \<and> errtoken s \<noteq> Some p
        \<and> type_at s (if type_name r \<noteq> None then ''*'' else []) = None
      \<longrightarrow> (\<exists>s'. symbol_code_props_get p kind s = Inr (Props_none, s')
                \<and> type_at s' (if type_name r \<noteq> None then ''*'' else []) \<noteq> None
                \<and> semantic_types_sorted s' = semantic_types_sorted s))"
proof (intro conjI impI)
  assume "sym_at s key = None \<and> symbols_sorted s \<noteq> None"
  then show "symbol_from_uniqstr key loc s = Inl Aver_failed"
    by (auto simp add: symbol_from_uniqstr_def)
next
  assume n: "type_at s key = None"
  then show "semantic_type_from_uniqstr key tloc s
            = (key, s\<lparr>semantic_type_table :=
                        semantic_type_table s @ [(key, semantic_type_new key tloc)]\<rparr>)"
    by (simp add: semantic_type_from_uniqstr_def)
  from n show "type_at (snd (semantic_type_from_uniqstr key tloc s)) key
              = Some (semantic_type_new key tloc)"
    by (simp add: semantic_type_from_uniqstr_def type_at_append)
  from n show "semantic_types_sorted (snd (semantic_type_from_uniqstr key tloc s))
              = semantic_types_sorted s"
    by (simp add: semantic_type_from_uniqstr_def)
next
  assume a: "sym_at s p = Some r \<and> cp_code (props r kind) = None
        \<and> (\<forall>tn t. type_name r = Some tn \<longrightarrow> type_at s tn = Some t
               \<longrightarrow> cp_code (st_props t kind) = None)
        \<and> (case tag r of [] \<Rightarrow> True | c # _ \<Rightarrow> c \<noteq> CHR ''$'') \<and> errtoken s \<noteq> Some p
        \<and> type_at s (if type_name r \<noteq> None then ''*'' else []) = None"
  then have 1: "sym_at s p = Some r" and 2: "cp_code (props r kind) = None"
    and 3: "\<And>tn t. type_name r = Some tn \<Longrightarrow> type_at s tn = Some t
               \<Longrightarrow> cp_code (st_props t kind) = None"
    and 4: "case tag r of [] \<Rightarrow> True | c # _ \<Rightarrow> c \<noteq> CHR ''$''" and 5: "errtoken s \<noteq> Some p"
    and 6: "type_at s (if type_name r \<noteq> None then ''*'' else []) = None"
    by blast+
  from symbol_code_props_get_default [OF 1 2 3 4 5 6]
  show "\<exists>s'. symbol_code_props_get p kind s = Inr (Props_none, s')
                \<and> type_at s' (if type_name r \<noteq> None then ''*'' else []) \<noteq> None
                \<and> semantic_types_sorted s' = semantic_types_sorted s" .
qed


theorem semantic_types_grow_after_sorting_witness:
  "map_option tag (sym_at after_check_defined ''U'') = None
   \<and> symbols_sorted after_check_defined = Some [''exp'']
   \<and> symbol_from_uniqstr ''U'' 5 after_check_defined = Inl Aver_failed
   \<and> map_option st_tag (type_at after_check_defined ''U'') = None
   \<and> semantic_types_sorted after_check_defined = Some [[]]
   \<and> map_option st_tag
        (type_at (snd (semantic_type_from_uniqstr ''U'' None after_check_defined)) ''U'')
       = Some ''U''
   \<and> semantic_types_sorted (snd (semantic_type_from_uniqstr ''U'' None after_check_defined))
       = Some [[]]
   \<and> map_option type_name (sym_at after_check_defined ''exp'') = Some (Some ''T'')
   \<and> map_option st_tag (type_at after_check_defined ''*'') = None
   \<and> (case symbol_code_props_get ''exp'' printer after_check_defined of
         Inl e \<Rightarrow> False
       | Inr (code, s') \<Rightarrow>
           code = Props_none \<and> type_at s' ''*'' \<noteq> None
           \<and> semantic_types_sorted s' = Some [[]])"
proof -
  have h1: "map_option tag (sym_at after_check_defined ''U'') = None"
    "symbols_sorted after_check_defined = Some [''exp'']"
    by code_simp+
  have h2: "map_option st_tag (type_at after_check_defined ''U'') = None"
    "semantic_types_sorted after_check_defined = Some [[]]"
    by code_simp+
  have h3: "map_option type_name (sym_at after_check_defined ''exp'') = Some (Some ''T'')"
    "map_option (\<lambda>r. cp_code (props r printer)) (sym_at after_check_defined ''exp'') = Some None"
    "map_option tag (sym_at after_check_defined ''exp'') = Some ''exp''"
    "map_option st_tag (type_at after_check_defined ''T'') = None"
    "map_option st_tag (type_at after_check_defined ''*'') = None"
    "errtoken after_check_defined = None"
    by code_simp+
  from h3 obtain r where r: "sym_at after_check_defined ''exp'' = Some r"
    "type_name r = Some ''T''" "cp_code (props r printer) = None" "tag r = ''exp''"
    by auto
  note T = semantic_types_grow_after_sorting
    [where s = after_check_defined and key = "''U''" and loc = 5 and tloc = None
       and p = "''exp''" and r = r and kind = printer]
  from T h1 have c1: "symbol_from_uniqstr ''U'' 5 after_check_defined = Inl Aver_failed"
    by simp
  from h2 have n2: "type_at after_check_defined ''U'' = None" by simp
  note T2 = T [THEN conjunct2, THEN conjunct1, THEN mp, OF n2]
  have c2:
    "type_at (snd (semantic_type_from_uniqstr ''U'' None after_check_defined)) ''U''
       = Some (semantic_type_new ''U'' None)"
    "semantic_types_sorted (snd (semantic_type_from_uniqstr ''U'' None after_check_defined))
       = semantic_types_sorted after_check_defined"
    using T2 by blast+
  from h3 have n3: "type_at after_check_defined ''T'' = None"
    "type_at after_check_defined ''*'' = None" by simp_all
  have "sym_at after_check_defined ''exp'' = Some r \<and> cp_code (props r printer) = None
        \<and> (\<forall>tn t. type_name r = Some tn \<longrightarrow> type_at after_check_defined tn = Some t
               \<longrightarrow> cp_code (st_props t printer) = None)
        \<and> (case tag r of [] \<Rightarrow> True | c # _ \<Rightarrow> c \<noteq> CHR ''$'')
        \<and> errtoken after_check_defined \<noteq> Some ''exp''
        \<and> type_at after_check_defined (if type_name r \<noteq> None then ''*'' else []) = None"
    using r n3 h3(6) by simp
  from T [THEN conjunct2, THEN conjunct2, THEN mp, OF this] r(2)
  obtain s' where c3:
    "symbol_code_props_get ''exp'' printer after_check_defined = Inr (Props_none, s')"
    "type_at s' ''*'' \<noteq> None"
    "semantic_types_sorted s' = semantic_types_sorted after_check_defined"
    by auto
  from h1 h2 h3 c1 c2 c3 show ?thesis
    by (simp add: semantic_type_new_def)
qed

subsection \<open>Token translations\<close>








lemma symbol_user_number_max [simp]:
  "symbol_user_number (s\<lparr>max_user_token_number := m\<rparr>) q = symbol_user_number s q"
  by (cases q) (simp_all add: symbol_user_number_def)





















subsection \<open>The numbers assigned by the second loop\<close>








subsection \<open>The pass returns when the tokens are in place\<close>







lemma token_translations_redeclaration [simp]:
  "token_translations (user_token_number_redeclaration n f r x) = token_translations x"
  by (simp add: user_token_number_redeclaration_def complain_indent_def Let_def)







subsection \<open>The transitive closure and the transitive reduction\<close>


































end
